theory Spec2Isabelle
  imports Complex_Main
begin

section \<open>Python values shared by the modules\<close>

text \<open>
  The exceptions the modelled functions can raise. \<open>WrongFormat\<close> is the class declared in
  \<^verbatim>\<open>http_chunk.py\<close>; \<open>IOError\<close>, \<open>ValueError\<close>, \<open>IndexError\<close>, \<open>KeyError\<close>, \<open>TypeError\<close> and
  \<open>ZeroDivisionError\<close> are Python built-ins. \<open>OtherException\<close> stands for an exception
  (a subclass of \<open>Exception\<close>) raised by a collaborator outside the modelled files.
\<close>

datatype py_error =
    WrongFormat
  | IOError
  | ValueError
  | IndexError
  | KeyError
  | TypeError
  | ZeroDivisionError
  | OtherException string

subsection \<open>\<open>str(int)\<close>\<close>

definition digit_char :: "nat \<Rightarrow> char" where
  "digit_char d = char_of (48 + d)"

fun str_nat :: "nat \<Rightarrow> string" where
  "str_nat n = (if n < 10 then [digit_char n] else str_nat (n div 10) @ [digit_char (n mod 10)])"

declare str_nat.simps [simp del]

definition str_int :: "int \<Rightarrow> string" where
  "str_int i = (if i < 0 then CHR ''-'' # str_nat (nat (- i)) else str_nat (nat i))"

section \<open>\<open>http_chunk.py\<close>: class \<open>ChunkInfo\<close>\<close>

text \<open>
  The attributes of a \<open>ChunkInfo\<close>. \<open>chunks\<close> is the list of \<open>(name, (start, end))\<close> pairs
  built by \<open>addChunk\<close>. \<open>loaded\<close> is the attribute that only \<open>ChunkInfo.load\<close> sets; it is
  \<open>False\<close> on an object on which the attribute is absent.
\<close>

record ChunkInfo =
  name :: string
  size_ci :: int
  resume :: bool
  chunks :: "(string \<times> (int \<times> int)) list"
  loaded :: bool


definition addChunk :: "ChunkInfo \<Rightarrow> string \<Rightarrow> int \<times> int \<Rightarrow> ChunkInfo" where
  "addChunk ci n r = ci\<lparr>chunks := chunks ci @ [(n, r)]\<rparr>"

definition clear :: "ChunkInfo \<Rightarrow> ChunkInfo" where
  "clear ci = ci\<lparr>chunks := []\<rparr>"

text \<open>
  One pass of the body of the \<open>for i in range(chunks)\<close> loop of \<open>createChunks\<close>. The loop
  state is the local \<open>current\<close> and the object; \<open>k\<close> is the argument \<open>chunks\<close> and \<open>cs\<close> the
  local \<open>chunk_size\<close>.
\<close>

definition createChunks_body :: "int \<Rightarrow> int \<Rightarrow> int \<times> ChunkInfo \<Rightarrow> nat \<Rightarrow> int \<times> ChunkInfo" where
  "createChunks_body k cs st i =
     (let current = fst st; ci = snd st;
          end = (if int i = k - 1 then size_ci ci - 1 else current + cs)
      in (current + cs + 1,
          addChunk ci (name ci @ ''.chunk'' @ str_int (int i)) (current, end)))"

text \<open>
  \<open>createChunks\<close>. \<open>self.size // chunks\<close> raises \<open>ZeroDivisionError\<close> for \<open>chunks = 0\<close> (after
  the list has been cleared); \<open>range(chunks)\<close> is empty for a negative argument. Python's
  \<open>//\<close> on integers is floor division, as \<open>div\<close> on \<open>int\<close> is.
\<close>

definition createChunks :: "ChunkInfo \<Rightarrow> int \<Rightarrow> py_error + ChunkInfo" where
  "createChunks ci k =
     (let ci1 = clear ci in
      if k = 0 then Inl ZeroDivisionError
      else let chunk_size = size_ci ci1 div k
           in Inr (snd (foldl (createChunks_body k chunk_size) (0, ci1) [0..<nat k])))"

text \<open>The byte range of a stored chunk entry, and whether an offset lies in it.\<close>

definition chunk_start :: "string \<times> (int \<times> int) \<Rightarrow> int" where
  "chunk_start c = fst (snd c)"

definition chunk_end :: "string \<times> (int \<times> int) \<Rightarrow> int" where
  "chunk_end c = snd (snd c)"

definition covers :: "string \<times> (int \<times> int) \<Rightarrow> int \<Rightarrow> bool" where
  "covers c x = (chunk_start c \<le> x \<and> x \<le> chunk_end c)"

text \<open>The entry that the loop of \<open>createChunks\<close> appends for index \<open>i\<close>, in closed form.\<close>

definition layout_entry :: "string \<Rightarrow> int \<Rightarrow> int \<Rightarrow> int \<Rightarrow> nat \<Rightarrow> string \<times> (int \<times> int)" where
  "layout_entry n s k cs i =
     (n @ ''.chunk'' @ str_int (int i),
      (int i * (cs + 1), if int i = k - 1 then s - 1 else int i * (cs + 1) + cs))"

subsection \<open>Text files\<close>









subsection \<open>\<open>int(str)\<close>\<close>









subsection \<open>\<open>ChunkInfo.save\<close> and \<open>ChunkInfo.load\<close>\<close>















section \<open>\<open>captcha_manager.py\<close>\<close>

text \<open>
  Times are the values of \<open>time.time()\<close>, taken as real numbers. A \<open>CaptchaTask\<close> keeps
  its attributes; \<open>None\<close> is the Python \<open>None\<close>. \<open>handler\<close> holds the names of the addon
  plugins that registered themselves; \<open>captchaParams\<close> and \<open>data\<close> are opaque here.
\<close>

datatype captcha_result = Textual string | Positional int int

record CaptchaTask =
  id_ct :: string
  captchaParams :: string
  captchaFormat :: string
  captchaResultType :: string
  handler :: "string list"
  result_ct :: "captcha_result option"
  waitUntil :: "real option"
  error :: "string option"
  status :: string
  data_ct :: "(string \<times> string) list"

text \<open>An id is passed as an integer or as a string; \<open>str(id)\<close> makes it a string.\<close>

datatype py_id = PyInt int | PyStr string

fun str_id :: "py_id \<Rightarrow> string" where
  "str_id (PyInt i) = str_int i"
| "str_id (PyStr s) = s"

definition CaptchaTask_init :: "py_id \<Rightarrow> string \<Rightarrow> string \<Rightarrow> string \<Rightarrow> CaptchaTask" where
  "CaptchaTask_init i format params result_type =
     \<lparr>id_ct = str_id i, captchaParams = params, captchaFormat = format,
      captchaResultType = result_type, handler = [], result_ct = None,
      waitUntil = None, error = None, status = ''init'', data_ct = []\<rparr>"

text \<open>
  \<open>setWaiting\<close>: \<open>max(time.time() + sec, self.waitUntil)\<close> compares a number with
  \<open>self.waitUntil\<close>; in Python 3 the comparison with \<open>None\<close> raises \<open>TypeError\<close>, before
  anything is assigned. \<open>now\<close> is the value of \<open>time.time()\<close>.
\<close>

definition setWaiting :: "real \<Rightarrow> CaptchaTask \<Rightarrow> real \<Rightarrow> py_error + CaptchaTask" where
  "setWaiting now t sec =
     (case waitUntil t of
        None \<Rightarrow> Inl TypeError
      | Some w \<Rightarrow> Inr (t\<lparr>waitUntil := Some (max (now + sec) w), status := ''waiting''\<rparr>))"

definition setWatingForUser :: "CaptchaTask \<Rightarrow> bool \<Rightarrow> CaptchaTask" where
  "setWatingForUser t exclusive =
     (if exclusive then t\<lparr>status := ''user''\<rparr> else t\<lparr>status := ''shared-user''\<rparr>)"

definition timedOut :: "real \<Rightarrow> CaptchaTask \<Rightarrow> py_error + bool" where
  "timedOut now t =
     (case waitUntil t of None \<Rightarrow> Inl TypeError | Some w \<Rightarrow> Inr (now > w))"

text \<open>
  Tasks are objects shared between the plugin that created them and the manager's list,
  so the list holds references: a reference is an index into the store of all task
  objects, and a new object is put at the end of the store.
\<close>

type_synonym ref = nat

type_synonym store = "CaptchaTask list"

record CaptchaManager =
  tasks :: "ref list"
  ids :: int

definition CaptchaManager_init :: CaptchaManager where
  "CaptchaManager_init = \<lparr>tasks = [], ids = 0\<rparr>"

definition newTask :: "CaptchaManager \<Rightarrow> store \<Rightarrow> string \<Rightarrow> string \<Rightarrow> string
    \<Rightarrow> ref \<times> CaptchaManager \<times> store" where
  "newTask m h format params result_type =
     (length h, m\<lparr>ids := ids m + 1\<rparr>,
      h @ [CaptchaTask_init (PyInt (ids m)) format params result_type])"

text \<open>
  \<open>task in self.tasks\<close> and \<open>self.tasks.remove(task)\<close> compare by identity
  (\<open>CaptchaTask\<close> defines no \<open>__eq__\<close>): they compare references.
\<close>

definition removeTask :: "CaptchaManager \<Rightarrow> ref \<Rightarrow> CaptchaManager" where
  "removeTask m r = (if r \<in> set (tasks m) then m\<lparr>tasks := remove1 r (tasks m)\<rparr> else m)"

definition getTask :: "CaptchaManager \<Rightarrow> store \<Rightarrow> ref option" where
  "getTask m h =
     find (\<lambda>r. status (h ! r) = ''waiting'' \<or> status (h ! r) = ''shared-user'') (tasks m)"

definition getTaskByID :: "CaptchaManager \<Rightarrow> store \<Rightarrow> py_id \<Rightarrow> ref option" where
  "getTaskByID m h tid = find (\<lambda>r. id_ct (h ! r) = str_id tid) (tasks m)"

text \<open>
  An active addon plugin, seen through its \<open>newCaptchaTask\<close> hook: the exception it ends
  with, if any, and the task as the hook leaves it. \<open>handleCaptcha\<close> swallows the
  exception (\<open>except Exception: pass\<close>) and keeps what the hook did to the task.
\<close>

type_synonym addon = "CaptchaTask \<Rightarrow> py_error option \<times> CaptchaTask"

fun offer :: "addon list \<Rightarrow> CaptchaTask \<Rightarrow> CaptchaTask" where
  "offer [] t = t"
| "offer (p # ps) t = offer ps (snd (p t))"

text \<open>
  \<open>handleCaptcha\<close>. \<open>cli\<close> is the value of \<open>self.pyload.isClientConnected()\<close>, \<open>plugins\<close>
  the list \<open>activePlugins()\<close>, \<open>tr\<close> the translation function \<open>self._\<close>, \<open>now\<close> the time.
  A list is true when it is not empty.
\<close>

definition handleCaptcha :: "bool \<Rightarrow> addon list \<Rightarrow> (string \<Rightarrow> string) \<Rightarrow> real
    \<Rightarrow> CaptchaManager \<Rightarrow> store \<Rightarrow> ref \<Rightarrow> real
    \<Rightarrow> py_error + (bool \<times> CaptchaManager \<times> store)" where
  "handleCaptcha cli plugins tr now m h task timeout =
     (case setWaiting now (h ! task) timeout of
        Inl e \<Rightarrow> Inl e
      | Inr t1 \<Rightarrow>
          (let t2 = offer plugins t1 in
           if handler t2 \<noteq> [] \<or> cli then
             Inr (True, m\<lparr>tasks := tasks m @ [task]\<rparr>, h[task := t2])
           else
             Inr (False, m,
                  h[task := t2\<lparr>error := Some (tr ''No Client connected for captcha decrypting'')\<rparr>])))"

section \<open>\<open>thread_manager.py\<close>: the info-result cache and the tick\<close>

text \<open>
  The attributes of the \<open>ThreadManager\<close> that the modelled methods use. A bucket of
  \<open>infoResults\<close> maps a key (a url or the sentinel) to a value of type \<open>'v\<close>; \<open>infoCache\<close>
  is only tested for emptiness and cleared. \<open>'w\<close> is everything else the thread manager
  and the core hold (worker threads, file store, configuration).
\<close>

record ('v, 'w) ThreadManager =
  pause :: bool
  reconnecting :: bool
  infoCache :: "string \<rightharpoonup> 'v"
  resultIDs :: int
  infoResults :: "int \<rightharpoonup> (string \<rightharpoonup> 'v)"
  timestamp :: real
  world :: 'w

text \<open>\<open>timedelta(minutes=5).seconds\<close>.\<close>

definition purge_window :: real where
  "purge_window = 300"

text \<open>
  \<open>createResultThread\<close>: the \<open>InfoThread\<close> it starts runs on its own and is not part of
  the call; the result is the id and the manager.
\<close>

definition createResultThread :: "real \<Rightarrow> ('v, 'w) ThreadManager \<Rightarrow> int \<times> ('v, 'w) ThreadManager" where
  "createResultThread now tm =
     (let tm1 = tm\<lparr>timestamp := now + purge_window\<rparr>;
          rid = resultIDs tm1
      in (rid, tm1\<lparr>resultIDs := resultIDs tm1 + 1\<rparr>))"

definition getInfoResult :: "real \<Rightarrow> ('v, 'w) ThreadManager \<Rightarrow> int
    \<Rightarrow> (string \<rightharpoonup> 'v) \<times> ('v, 'w) ThreadManager" where
  "getInfoResult now tm rid =
     (let tm1 = tm\<lparr>timestamp := now + purge_window\<rparr>
      in case infoResults tm1 rid of
           Some d \<Rightarrow> (d, tm1\<lparr>infoResults := (infoResults tm1)(rid \<mapsto> Map.empty)\<rparr>)
         | None \<Rightarrow> (Map.empty, tm1))"

text \<open>\<open>setInfoResults\<close>: \<open>self.infoResults[rid]\<close> raises \<open>KeyError\<close> for a missing key.\<close>

definition setInfoResults :: "('v, 'w) ThreadManager \<Rightarrow> int \<Rightarrow> (string \<rightharpoonup> 'v)
    \<Rightarrow> py_error + ('v, 'w) ThreadManager" where
  "setInfoResults tm rid res =
     (case infoResults tm rid of
        None \<Rightarrow> Inl KeyError
      | Some d \<Rightarrow> Inr (tm\<lparr>infoResults := (infoResults tm)(rid \<mapsto> d ++ res)\<rparr>))"

text \<open>
  What a tick does that can be observed from outside, in order: the calls of the three
  methods whose bodies depend on the worker threads and the file store, the log entries
  and the back-off.
\<close>

datatype event =
    Call_tryReconnect
  | Call_checkThreadCount
  | Call_assignJob
  | Log_error string
  | Log_warning string
  | Log_debug string
  | Sleep real

text \<open>
  \<open>tryReconnect\<close>, \<open>checkThreadCount\<close> and \<open>assignJob\<close> work on threads, plugins and the
  file store; for \<open>run\<close> each of them is a step that ends with an exception or without and
  leaves a manager.
\<close>

type_synonym ('v, 'w) step = "('v, 'w) ThreadManager \<Rightarrow> py_error option \<times> ('v, 'w) ThreadManager"

text \<open>The last statement of \<open>run\<close>: the expiry of the cache, at time \<open>now\<close>.\<close>

definition cache_expiry :: "real \<Rightarrow> ('v, 'w) ThreadManager \<times> event list
    \<Rightarrow> ('v, 'w) ThreadManager \<times> event list" where
  "cache_expiry now st =
     (let tm = fst st; tr = snd st in
      if (infoCache tm \<noteq> Map.empty \<or> infoResults tm \<noteq> Map.empty) \<and> timestamp tm < now then
        (tm\<lparr>infoCache := Map.empty, infoResults := Map.empty\<rparr>,
         tr @ [Log_debug ''Cleared Result cache''])
      else (tm, tr))"

text \<open>
  \<open>run\<close>: the result is the exception that leaves \<open>run\<close>, if any, the manager and the
  events of the tick. \<open>exc_text\<close> renders an exception for the log message; \<open>now\<close> is the
  time read by the expiry test.
\<close>

definition run :: "('v, 'w) step \<Rightarrow> ('v, 'w) step \<Rightarrow> ('v, 'w) step \<Rightarrow> (py_error \<Rightarrow> string)
    \<Rightarrow> real \<Rightarrow> ('v, 'w) ThreadManager
    \<Rightarrow> py_error option \<times> ('v, 'w) ThreadManager \<times> event list" where
  "run tryReconnect checkThreadCount assignJob exc_text now tm =
     (let r1 = tryReconnect tm;
          s1 = (case fst r1 of
                  None \<Rightarrow> (snd r1, [Call_tryReconnect])
                | Some exc \<Rightarrow>
                    ((snd r1)\<lparr>reconnecting := False\<rparr>,
                     [Call_tryReconnect, Log_error (''Reconnect Failed: '' @ exc_text exc)]));
          r2 = checkThreadCount (fst s1);
          tr2 = snd s1 @ [Call_checkThreadCount]
      in case fst r2 of
           Some exc \<Rightarrow> (Some exc, snd r2, tr2)
         | None \<Rightarrow>
             (let r3 = assignJob (snd r2); tr3 = tr2 @ [Call_assignJob]
              in case fst r3 of
                   None \<Rightarrow> (None, cache_expiry now (snd r3, tr3))
                 | Some exc \<Rightarrow>
                     (let tr4 = tr3 @ [Log_warning ''Assign job error'', Sleep (1 / 2)];
                          r4 = assignJob (snd r3);
                          tr5 = tr4 @ [Call_assignJob]
                      in case fst r4 of
                           Some exc' \<Rightarrow> (Some exc', snd r4, tr5)
                         | None \<Rightarrow> (None, cache_expiry now (snd r4, tr5)))))"

section \<open>\<open>api/__init__.py\<close>: \<open>pollResults\<close>\<close>

record 'v OnlineCheck =
  rid :: int
  data :: "string \<rightharpoonup> 'v"

definition ALL_INFO_FETCHED :: string where
  "ALL_INFO_FETCHED = ''ALL_INFO_FETCHED''"

definition pollResults :: "real \<Rightarrow> ('v, 'w) ThreadManager \<Rightarrow> int
    \<Rightarrow> 'v OnlineCheck \<times> ('v, 'w) ThreadManager" where
  "pollResults now tm r =
     (let res = fst (getInfoResult now tm r); tm' = snd (getInfoResult now tm r)
      in if ALL_INFO_FETCHED \<in> dom res then
           (\<lparr>rid = - 1, data = res(ALL_INFO_FETCHED := None)\<rparr>, tm')
         else (\<lparr>rid = r, data = res\<rparr>, tm'))"

section \<open>Chunk layout: properties\<close>

lemma createChunks_body_closed:
  "createChunks_body k cs (int m * (cs + 1), ci\<lparr>chunks := xs\<rparr>) m =
     (int (Suc m) * (cs + 1), ci\<lparr>chunks := xs @ [layout_entry (name ci) (size_ci ci) k cs m]\<rparr>)"
  by (simp add: createChunks_body_def addChunk_def layout_entry_def Let_def distrib_right)

lemma createChunks_loop:
  "foldl (createChunks_body k cs) (0, clear ci) [0..<m] =
     (int m * (cs + 1), ci\<lparr>chunks := map (layout_entry (name ci) (size_ci ci) k cs) [0..<m]\<rparr>)"
proof (induction m)
  case 0
  show ?case by (simp add: clear_def)
next
  case (Suc m)
  have "foldl (createChunks_body k cs) (0, clear ci) [0..<Suc m] =
        createChunks_body k cs (foldl (createChunks_body k cs) (0, clear ci) [0..<m]) m"
    by simp
  also have "\<dots> = createChunks_body k cs
        (int m * (cs + 1), ci\<lparr>chunks := map (layout_entry (name ci) (size_ci ci) k cs) [0..<m]\<rparr>) m"
    by (simp only: Suc)
  also have "\<dots> = (int (Suc m) * (cs + 1),
        ci\<lparr>chunks := map (layout_entry (name ci) (size_ci ci) k cs) [0..<m]
               @ [layout_entry (name ci) (size_ci ci) k cs m]\<rparr>)"
    by (rule createChunks_body_closed)
  finally show ?case by simp
qed

lemma createChunks_closed:
  assumes "k \<noteq> 0"
  shows "createChunks ci k =
           Inr (ci\<lparr>chunks := map (layout_entry (name ci) (size_ci ci) k (size_ci ci div k)) [0..<nat k]\<rparr>)"
proof -
  have "size_ci (clear ci) = size_ci ci" by (simp add: clear_def)
  then show ?thesis
    using assms by (simp add: createChunks_def Let_def createChunks_loop)
qed

text \<open>
  Claim C1, as the code lays the chunks out. For \<open>K \<ge> 1\<close>, \<open>createChunks\<close> makes \<open>K\<close>
  chunks; with \<open>c\<close> the size divided by \<open>K\<close>, rounded down, chunk \<open>i\<close> has the name
  \<open>name.chunk<i>\<close> and the inclusive range from \<open>i * (c + 1)\<close> to \<open>i * (c + 1) + c\<close>, except
  that the last chunk ends at \<open>S - 1\<close>. Every chunk but the last holds \<open>c + 1\<close> bytes.
\<close>

theorem createChunks_layout:
  assumes "1 \<le> k"
  shows "\<exists>ci'. createChunks ci k = Inr ci'
           \<and> length (chunks ci') = nat k
           \<and> (\<forall>i < nat k. chunks ci' ! i =
                 (name ci @ ''.chunk'' @ str_int (int i),
                  (int i * (size_ci ci div k + 1),
                   if int i = k - 1 then size_ci ci - 1
                   else int i * (size_ci ci div k + 1) + size_ci ci div k)))"
proof -
  from assms have "k \<noteq> 0" by simp
  then show ?thesis
    by (simp add: createChunks_closed layout_entry_def)
qed

theorem createChunks_layout_witness:
  "\<exists>ci'. createChunks \<lparr>name = ''f'', size_ci = 10, resume = False, chunks = [], loaded = False\<rparr> 3 = Inr ci'
      \<and> length (chunks ci') = 3
      \<and> chunks ci' ! 1 = (''f.chunk1'', (4, 7))
      \<and> chunks ci' ! 2 = (''f.chunk2'', (8, 9))"
proof -
  have h: "(1::int) \<le> 3" by simp
  have s1: "str_int 1 = ''1''" and s2: "str_int 2 = ''2''" by code_simp+
  have n1: "(1::nat) < nat 3" and n2: "(2::nat) < nat 3" by simp_all
  from createChunks_layout [OF h, of "\<lparr>name = ''f'', size_ci = 10, resume = False, chunks = [], loaded = False\<rparr>"]
  obtain ci' where a: "createChunks \<lparr>name = ''f'', size_ci = 10, resume = False, chunks = [], loaded = False\<rparr> 3 = Inr ci'"
    and b: "length (chunks ci') = nat 3"
    and c: "\<forall>i < nat 3. chunks ci' ! i =
              (name \<lparr>name = ''f'', size_ci = 10, resume = False, chunks = [], loaded = False\<rparr>
                 @ ''.chunk'' @ str_int (int i),
               (int i * (size_ci \<lparr>name = ''f'', size_ci = 10, resume = False, chunks = [], loaded = False\<rparr> div 3 + 1),
                if int i = 3 - 1
                then size_ci \<lparr>name = ''f'', size_ci = 10, resume = False, chunks = [], loaded = False\<rparr> - 1
                else int i * (size_ci \<lparr>name = ''f'', size_ci = 10, resume = False, chunks = [], loaded = False\<rparr> div 3 + 1)
                     + size_ci \<lparr>name = ''f'', size_ci = 10, resume = False, chunks = [], loaded = False\<rparr> div 3))"
    by blast
  from c n1 have c1: "chunks ci' ! 1 = (''f.chunk1'', (4, 7))" using s1 by simp
  from c n2 have c2: "chunks ci' ! 2 = (''f.chunk2'', (8, 9))" using s2 by simp
  from a b c1 c2 show ?thesis by simp
qed

text \<open>
  For \<open>S = 10\<close> and \<open>K = 2\<close> the chunks are \<open>(0, 5)\<close> and \<open>(6, 9)\<close>, not \<open>(0, 4)\<close> and \<open>(5, 9)\<close>,
  the ranges from \<open>i * (S div K)\<close> to \<open>(i + 1) * (S div K) - 1\<close>.
\<close>

theorem createChunks_layout_counterexample:
  "createChunks \<lparr>name = ''f'', size_ci = 10, resume = False, chunks = [], loaded = False\<rparr> 2
     = Inr \<lparr>name = ''f'', size_ci = 10, resume = False,
            chunks = [(''f.chunk0'', (0, 5)), (''f.chunk1'', (6, 9))], loaded = False\<rparr>
   \<and> (0::int, 5::int) \<noteq> (0 * (10 div 2), (0 + 1) * (10 div 2) - 1)
   \<and> (6::int, 9::int) \<noteq> (1 * (10 div 2), (1 + 1) * (10 div 2) - 1)"
  by code_simp

lemma layout_covers_offset:
  assumes s: "0 < s" and k: "1 \<le> k" and x0: "0 \<le> x" and xs: "x < s"
  shows "\<exists>i < nat k. covers (layout_entry n s k (s div k) i) x"
proof -
  define cs where "cs = s div k"
  define q where "q = cs + 1"
  have cs0: "0 \<le> cs" using s k by (simp add: cs_def pos_imp_zdiv_nonneg_iff)
  have q0: "0 < q" using cs0 by (simp add: q_def)
  define j where "j = x div q"
  have j0: "0 \<le> j" using x0 q0 by (simp add: j_def pos_imp_zdiv_nonneg_iff)
  have m: "x = j * q + x mod q" by (simp add: j_def)
  have m0: "0 \<le> x mod q" and m1: "x mod q < q" using q0 by simp_all
  have lo: "j * q \<le> x" using m m0 by linarith
  have hi: "x \<le> j * q + cs" using m m1 by (simp add: q_def)
  show ?thesis
  proof (cases "j < k - 1")
    case True
    have "nat j < nat k" using True j0 by simp
    moreover have "covers (layout_entry n s k cs (nat j)) x"
      using True j0 lo hi by (simp add: covers_def chunk_start_def chunk_end_def layout_entry_def q_def)
    ultimately show ?thesis unfolding cs_def by blast
  next
    case False
    then have "k - 1 \<le> j" by simp
    then have "(k - 1) * q \<le> j * q" using q0 by (simp add: mult_right_mono)
    with lo have lo': "(k - 1) * q \<le> x" by simp
    have "nat (k - 1) < nat k" using k by simp
    moreover have "covers (layout_entry n s k cs (nat (k - 1))) x"
      using k lo' xs by (simp add: covers_def chunk_start_def chunk_end_def layout_entry_def q_def)
    ultimately show ?thesis unfolding cs_def by blast
  qed
qed

text \<open>
  Claim C2. For a size \<open>S > 0\<close> and \<open>K \<ge> 1\<close> chunks, the ranges made by \<open>createChunks\<close>
  leave no gap in \<open>[0, S)\<close>: the first chunk covers offset 0, every later chunk starts one
  byte after the end of the chunk before it, the last chunk ends at \<open>S - 1\<close>, and every
  offset from 0 to \<open>S - 1\<close> lies in the range of some chunk.
\<close>

theorem createChunks_no_gaps:
  assumes "0 < size_ci ci" and "1 \<le> k"
  shows "\<exists>ci'. createChunks ci k = Inr ci'
           \<and> chunks ci' \<noteq> []
           \<and> covers (hd (chunks ci')) 0
           \<and> (\<forall>i. Suc i < length (chunks ci') \<longrightarrow>
                  chunk_start (chunks ci' ! Suc i) = chunk_end (chunks ci' ! i) + 1)
           \<and> chunk_end (last (chunks ci')) = size_ci ci - 1
           \<and> (\<forall>x. 0 \<le> x \<and> x < size_ci ci \<longrightarrow> (\<exists>c \<in> set (chunks ci'). covers c x))"
proof -
  let ?e = "layout_entry (name ci) (size_ci ci) k (size_ci ci div k)"
  let ?cs = "map ?e [0..<nat k]"
  from assms have k0: "k \<noteq> 0" and nk: "0 < nat k" by simp_all
  have cs0: "0 \<le> size_ci ci div k" using assms by (simp add: pos_imp_zdiv_nonneg_iff)
  have c1: "createChunks ci k = Inr (ci\<lparr>chunks := ?cs\<rparr>)"
    using k0 by (rule createChunks_closed)
  have c2: "?cs \<noteq> []" using nk by simp
  have "hd ?cs = ?e 0" using nk by (simp add: hd_map upt_conv_Cons)
  then have c3: "covers (hd ?cs) 0"
    using assms cs0 by (simp add: covers_def chunk_start_def chunk_end_def layout_entry_def)
  have c4: "\<forall>i. Suc i < length ?cs \<longrightarrow> chunk_start (?cs ! Suc i) = chunk_end (?cs ! i) + 1"
  proof (intro allI impI)
    fix i assume a: "Suc i < length ?cs"
    then have "int i \<noteq> k - 1" by auto
    with a show "chunk_start (?cs ! Suc i) = chunk_end (?cs ! i) + 1"
      by (simp add: chunk_start_def chunk_end_def layout_entry_def distrib_right)
  qed
  have "last ?cs = ?e (nat k - 1)" using nk by (simp add: last_map last_upt)
  then have c5: "chunk_end (last ?cs) = size_ci ci - 1"
    using assms by (simp add: chunk_end_def layout_entry_def)
  have c6: "\<forall>x. 0 \<le> x \<and> x < size_ci ci \<longrightarrow> (\<exists>c \<in> set ?cs. covers c x)"
  proof (intro allI impI)
    fix x assume "0 \<le> x \<and> x < size_ci ci"
    then obtain i where "i < nat k" and "covers (?e i) x"
      using layout_covers_offset [OF assms(1) assms(2), of x "name ci"] by blast
    then show "\<exists>c \<in> set ?cs. covers c x" by auto
  qed
  show ?thesis using c1 c2 c3 c4 c5 c6 by simp
qed

theorem createChunks_no_gaps_witness:
  "\<exists>ci'. createChunks \<lparr>name = ''f'', size_ci = 4, resume = False, chunks = [], loaded = False\<rparr> 4 = Inr ci'
           \<and> map snd (chunks ci') = [(0::int, 1::int), (2, 3), (4, 5), (6, 3)]
           \<and> (\<forall>x. 0 \<le> x \<and> x < 4 \<longrightarrow> (\<exists>c \<in> set (chunks ci'). covers c x))"
proof -
  have h1: "0 < size_ci \<lparr>name = ''f'', size_ci = 4, resume = False, chunks = [], loaded = False\<rparr>"
    by simp
  have h2: "(1::int) \<le> 4" by simp
  have e: "createChunks \<lparr>name = ''f'', size_ci = 4, resume = False, chunks = [], loaded = False\<rparr> 4
     = Inr \<lparr>name = ''f'', size_ci = 4, resume = False,
            chunks = [(''f.chunk0'', (0, 1)), (''f.chunk1'', (2, 3)), (''f.chunk2'', (4, 5)),
                      (''f.chunk3'', (6, 3))], loaded = False\<rparr>"
    by code_simp
  show ?thesis using createChunks_no_gaps [OF h1 h2] e by simp
qed

section \<open>Captcha broker: properties\<close>

lemma str_int_0: "str_int 0 = ''0''"
  by code_simp

text \<open>
  Claim C3, at the input on which the code fails. A task that \<open>newTask\<close> has just created
  has \<open>waitUntil = None\<close>; \<open>handleCaptcha\<close> on it ends in \<open>TypeError\<close>, raised by \<open>max\<close> in
  \<open>setWaiting\<close>, whatever the timeout, the plugins and the client state are.
\<close>

theorem handleCaptcha_fresh_task_raises:
  "handleCaptcha cli plugins tr now
     (fst (snd (newTask CaptchaManager_init [] format params result_type)))
     (snd (snd (newTask CaptchaManager_init [] format params result_type)))
     (fst (newTask CaptchaManager_init [] format params result_type))
     timeout = Inl TypeError"
  by (simp add: handleCaptcha_def newTask_def setWaiting_def CaptchaTask_init_def)

theorem handleCaptcha_fresh_task_raises_witness:
  "handleCaptcha True [] (\<lambda>s. s) 0 \<lparr>tasks = [], ids = 1\<rparr>
     [CaptchaTask_init (PyInt 0) ''f'' ''p'' ''textual''] 0 10 = Inl TypeError"
  using handleCaptcha_fresh_task_raises [of True "[]" "\<lambda>s. s" 0 "''f''" "''p''" "''textual''" 10]
  by (simp add: newTask_def CaptchaManager_init_def)



lemma find_first_by_key:
  "distinct (map f xs) \<Longrightarrow> r \<in> set xs \<Longrightarrow> find (\<lambda>x. f x = f r) xs = Some r"
proof (induction xs)
  case Nil
  then show ?case by simp
next
  case (Cons x xs)
  show ?case
  proof (cases "x = r")
    case True
    then show ?thesis by simp
  next
    case False
    with Cons.prems have r: "r \<in> set xs" by simp
    then have "f r \<in> f ` set xs" by simp
    with Cons.prems have "f x \<noteq> f r" by auto
    with Cons r show ?thesis by simp
  qed
qed

lemma find_some_mem: "find P xs = Some r \<Longrightarrow> r \<in> set xs"
  by (auto simp add: find_Some_iff)

text \<open>
  The list changes in two places only: \<open>handleCaptcha\<close> appends a task, \<open>removeTask\<close>
  takes one out.
\<close>

lemma removeTask_unreachable: "distinct (tasks m) \<Longrightarrow> r \<notin> set (tasks (removeTask m r))"
  by (simp add: removeTask_def)

text \<open>
  Claim C5, as the code looks tasks up. \<open>getTaskByID\<close> returns the first task of the
  manager's list whose id is \<open>str(tid)\<close>; it reads neither \<open>status\<close> nor \<open>waitUntil\<close>. So,
  with distinct ids in the list, a task is returned for its own id exactly when it is in
  the list, and changing the status or the deadline of any task changes no lookup.
\<close>

theorem getTaskByID_reachable:
  assumes "distinct (map (\<lambda>r. id_ct (h ! r)) (tasks m))"
  shows "(getTaskByID m h (PyStr (id_ct (h ! r))) = Some r) = (r \<in> set (tasks m))
       \<and> getTaskByID m (h[r' := (h ! r')\<lparr>status := s, waitUntil := w\<rparr>]) tid = getTaskByID m h tid"
proof -
  have a: "(getTaskByID m h (PyStr (id_ct (h ! r))) = Some r) = (r \<in> set (tasks m))"
    using assms find_first_by_key [of "\<lambda>r. id_ct (h ! r)" "tasks m" r]
    by (auto simp add: getTaskByID_def dest: find_some_mem)
  have "\<And>q. id_ct (h[r' := (h ! r')\<lparr>status := s, waitUntil := w\<rparr>] ! q) = id_ct (h ! q)"
  proof -
    fix q
    show "id_ct (h[r' := (h ! r')\<lparr>status := s, waitUntil := w\<rparr>] ! q) = id_ct (h ! q)"
      by (cases "r' < length h") (auto simp add: nth_list_update list_update_beyond)
  qed
  then have b: "getTaskByID m (h[r' := (h ! r')\<lparr>status := s, waitUntil := w\<rparr>]) tid = getTaskByID m h tid"
    by (simp add: getTaskByID_def)
  from a b show ?thesis by simp
qed

theorem getTaskByID_reachable_witness:
  "getTaskByID \<lparr>tasks = [0], ids = 1\<rparr>
     [(CaptchaTask_init (PyInt 0) ''f'' ''p'' ''textual'')\<lparr>waitUntil := Some 10, status := ''waiting''\<rparr>]
     (PyStr ''0'') = Some 0"
proof -
  let ?m = "\<lparr>tasks = [0], ids = 1\<rparr>"
  let ?h = "[(CaptchaTask_init (PyInt 0) ''f'' ''p'' ''textual'')\<lparr>waitUntil := Some 10, status := ''waiting''\<rparr>]"
  have h: "distinct (map (\<lambda>r. id_ct (?h ! r)) (tasks ?m))" by simp
  have i: "id_ct (?h ! 0) = ''0''" by (simp add: CaptchaTask_init_def str_int_0)
  show ?thesis using getTaskByID_reachable [OF h, of 0] i by simp
qed

text \<open>
  A task just made by \<open>newTask\<close> has status \<open>init\<close> and is not found; a task enqueued at
  time 0 with a timeout of 10 is still found at time 20, after its deadline.
\<close>

theorem getTaskByID_status_counterexample:
  "status (snd (snd (newTask CaptchaManager_init [] ''f'' ''p'' ''textual'')) ! 0) = ''init''
   \<and> getTaskByID (fst (snd (newTask CaptchaManager_init [] ''f'' ''p'' ''textual'')))
        (snd (snd (newTask CaptchaManager_init [] ''f'' ''p'' ''textual''))) (PyStr ''0'') = None
   \<and> handleCaptcha True [] (\<lambda>s. s) 0 \<lparr>tasks = [], ids = 1\<rparr>
        [(CaptchaTask_init (PyInt 0) ''f'' ''p'' ''textual'')\<lparr>waitUntil := Some 0\<rparr>] 0 10
      = Inr (True, \<lparr>tasks = [0], ids = 1\<rparr>,
             [(CaptchaTask_init (PyInt 0) ''f'' ''p'' ''textual'')\<lparr>waitUntil := Some 10, status := ''waiting''\<rparr>])
   \<and> timedOut 20 ((CaptchaTask_init (PyInt 0) ''f'' ''p'' ''textual'')\<lparr>waitUntil := Some 10, status := ''waiting''\<rparr>)
      = Inr True
   \<and> getTaskByID \<lparr>tasks = [0], ids = 1\<rparr>
        [(CaptchaTask_init (PyInt 0) ''f'' ''p'' ''textual'')\<lparr>waitUntil := Some 10, status := ''waiting''\<rparr>]
        (PyStr ''0'') = Some 0"
  by (simp add: newTask_def CaptchaManager_init_def CaptchaTask_init_def getTaskByID_def
      handleCaptcha_def setWaiting_def timedOut_def str_int_0)

section \<open>Info-result cache and tick: properties\<close>

text \<open>
  Claim C6, as the code refreshes the timestamp. \<open>createResultThread\<close> and
  \<open>getInfoResult\<close> set the timestamp to the time of the call plus 300 seconds;
  \<open>setInfoResults\<close> leaves it as it is. The expiry step of a tick changes nothing while the
  time is not past the timestamp, and empties both caches when it is past and one of
  them is not empty.
\<close>

theorem timestamp_refresh:
  "timestamp (snd (createResultThread now tm)) = now + 300
   \<and> timestamp (snd (getInfoResult now tm r)) = now + 300
   \<and> (\<forall>tm'. setInfoResults tm r d = Inr tm' \<longrightarrow> timestamp tm' = timestamp tm)
   \<and> (now \<le> timestamp tm \<longrightarrow> cache_expiry now (tm, tr) = (tm, tr))
   \<and> (timestamp tm < now \<and> (infoCache tm \<noteq> Map.empty \<or> infoResults tm \<noteq> Map.empty) \<longrightarrow>
        infoCache (fst (cache_expiry now (tm, tr))) = Map.empty
        \<and> infoResults (fst (cache_expiry now (tm, tr))) = Map.empty)"
  by (auto simp add: createResultThread_def getInfoResult_def setInfoResults_def cache_expiry_def
      purge_window_def Let_def split: option.splits)

theorem timestamp_refresh_witness:
  "setInfoResults
     \<lparr>pause = True, reconnecting = False, infoCache = Map.empty, resultIDs = 1,
      infoResults = [0 \<mapsto> (Map.empty :: string \<rightharpoonup> string)], timestamp = 300, world = ()\<rparr> 0 [''u'' \<mapsto> ''online'']
   = Inr \<lparr>pause = True, reconnecting = False, infoCache = Map.empty, resultIDs = 1,
      infoResults = [0 \<mapsto> [''u'' \<mapsto> ''online'']], timestamp = 300, world = ()\<rparr>
   \<and> cache_expiry 299
        (\<lparr>pause = True, reconnecting = False, infoCache = Map.empty, resultIDs = 1,
          infoResults = [0 \<mapsto> (Map.empty :: string \<rightharpoonup> string)], timestamp = 300, world = ()\<rparr>, [])
     = (\<lparr>pause = True, reconnecting = False, infoCache = Map.empty, resultIDs = 1,
          infoResults = [0 \<mapsto> (Map.empty :: string \<rightharpoonup> string)], timestamp = 300, world = ()\<rparr>, [])
   \<and> infoResults (fst (cache_expiry 301
        (\<lparr>pause = True, reconnecting = False, infoCache = Map.empty, resultIDs = 1,
          infoResults = [0 \<mapsto> (Map.empty :: string \<rightharpoonup> string)], timestamp = 300, world = ()\<rparr>, [])))
     = (Map.empty :: int \<rightharpoonup> (string \<rightharpoonup> string))"
proof -
  let ?tm = "\<lparr>pause = True, reconnecting = False, infoCache = Map.empty, resultIDs = 1,
      infoResults = [0 \<mapsto> (Map.empty :: string \<rightharpoonup> string)], timestamp = 300, world = ()\<rparr>"
  have h1: "(299::real) \<le> timestamp ?tm" by simp
  have h2: "timestamp ?tm < 301 \<and> (infoCache ?tm \<noteq> Map.empty \<or> infoResults ?tm \<noteq> Map.empty)"
    by simp
  have e: "setInfoResults ?tm 0 [''u'' \<mapsto> ''online'']
     = Inr \<lparr>pause = True, reconnecting = False, infoCache = Map.empty, resultIDs = 1,
      infoResults = [0 \<mapsto> [''u'' \<mapsto> ''online'']], timestamp = 300, world = ()\<rparr>"
    by (simp add: setInfoResults_def)
  from timestamp_refresh [where now = 299 and tm = ?tm and tr = "[]"] h1
  have a: "cache_expiry 299 (?tm, []) = (?tm, [])" by blast
  from timestamp_refresh [where now = 301 and tm = ?tm and tr = "[]"] h2
  have b: "infoResults (fst (cache_expiry 301 (?tm, []))) = Map.empty" by blast
  from e a b show ?thesis by simp
qed

text \<open>
  A bucket created at time 0 (timestamp 300) receives a merge at time 299: the timestamp
  stays 300, and the tick at time 301 flushes the merged data.
\<close>

theorem merge_refresh_counterexample:
  "setInfoResults
     \<lparr>pause = True, reconnecting = False, infoCache = Map.empty, resultIDs = 1,
      infoResults = [0 \<mapsto> Map.empty], timestamp = 300, world = ()\<rparr> 0 [''u'' \<mapsto> ''online'']
   = Inr \<lparr>pause = True, reconnecting = False, infoCache = Map.empty, resultIDs = 1,
      infoResults = [0 \<mapsto> [''u'' \<mapsto> ''online'']], timestamp = 300, world = ()\<rparr>
   \<and> infoResults (fst (cache_expiry 301
        (\<lparr>pause = True, reconnecting = False, infoCache = Map.empty, resultIDs = 1,
          infoResults = [0 \<mapsto> [''u'' \<mapsto> ''online'']], timestamp = 300, world = ()\<rparr>, [])))
     = Map.empty
   \<and> (300::real) \<noteq> 299 + purge_window"
  by (simp add: setInfoResults_def cache_expiry_def purge_window_def)

lemma cache_expiry_trace:
  "snd (cache_expiry now (tm, tr)) = tr
   \<or> snd (cache_expiry now (tm, tr)) = tr @ [Log_debug ''Cleared Result cache'']"
  by (simp add: cache_expiry_def Let_def)

lemma cache_expiry_count:
  "count_list (snd (cache_expiry now (tm, tr))) Call_assignJob = count_list tr Call_assignJob"
  using cache_expiry_trace [of now tm tr] by auto

lemma cache_expiry_suffix:
  "\<exists>post. snd (cache_expiry now (tm, tr)) = tr @ post"
  using cache_expiry_trace [of now tm tr] by auto

text \<open>
  Claim C7, as the code retries. Let \<open>checkThreadCount\<close> return. When the first
  \<open>assignJob\<close> returns, it is the only call and the expiry step runs. When it raises, a
  warning is logged, half a second is slept and \<open>assignJob\<close> is called once more, twice in
  all; when that second call returns, \<open>run\<close> returns and the expiry step runs; when it
  raises, its exception leaves \<open>run\<close> and the expiry step is skipped. Whether \<open>tryReconnect\<close>
  raised makes no difference.
\<close>

theorem run_retry_once:
  fixes tryReconnect checkThreadCount assignJob :: "('v, 'w) step"
    and exc_text :: "py_error \<Rightarrow> string" and now :: real and tm :: "('v, 'w) ThreadManager"
  defines "tmA \<equiv> (case fst (tryReconnect tm) of
                     None \<Rightarrow> snd (tryReconnect tm)
                   | Some e \<Rightarrow> (snd (tryReconnect tm))\<lparr>reconnecting := False\<rparr>)"
  defines "tmB \<equiv> snd (checkThreadCount tmA)"
  defines "tmC \<equiv> snd (assignJob tmB)"
  defines "out \<equiv> run tryReconnect checkThreadCount assignJob exc_text now tm"
  assumes chk: "fst (checkThreadCount tmA) = None"
  shows "(fst (assignJob tmB) = None \<longrightarrow>
            fst out = None
          \<and> count_list (snd (snd out)) Call_assignJob = 1
          \<and> (\<exists>pre. snd out = cache_expiry now (tmC, pre)))
       \<and> (fst (assignJob tmB) \<noteq> None \<longrightarrow>
            count_list (snd (snd out)) Call_assignJob = 2
          \<and> (\<exists>pre post. snd (snd out) =
                 pre @ [Call_assignJob, Log_warning ''Assign job error'', Sleep (1 / 2), Call_assignJob] @ post)
          \<and> (fst (assignJob tmC) = None \<longrightarrow>
                 fst out = None \<and> (\<exists>pre. snd out = cache_expiry now (snd (assignJob tmC), pre)))
          \<and> (\<forall>e. fst (assignJob tmC) = Some e \<longrightarrow>
                 fst out = Some e \<and> fst (snd out) = snd (assignJob tmC)
               \<and> Log_debug ''Cleared Result cache'' \<notin> set (snd (snd out))))"
proof -
  define tr1 where "tr1 = (case fst (tryReconnect tm) of
                     None \<Rightarrow> [Call_tryReconnect]
                   | Some e \<Rightarrow> [Call_tryReconnect, Log_error (''Reconnect Failed: '' @ exc_text e)])"
  define tr2 where "tr2 = tr1 @ [Call_checkThreadCount]"
  have c2: "count_list tr2 Call_assignJob = 0"
    by (simp add: tr2_def tr1_def split: option.splits)
  have nd: "Log_debug ''Cleared Result cache'' \<notin> set tr2"
    by (simp add: tr2_def tr1_def split: option.splits)
  have s1: "(case fst (tryReconnect tm) of
                  None \<Rightarrow> (snd (tryReconnect tm), [Call_tryReconnect])
                | Some exc \<Rightarrow>
                    ((snd (tryReconnect tm))\<lparr>reconnecting := False\<rparr>,
                     [Call_tryReconnect, Log_error (''Reconnect Failed: '' @ exc_text exc)]))
            = (tmA, tr1)"
    by (simp add: tmA_def tr1_def split: option.splits)
  have unfold: "out = (let r3 = assignJob tmB; tr3 = tr2 @ [Call_assignJob]
              in case fst r3 of
                   None \<Rightarrow> (None, cache_expiry now (snd r3, tr3))
                 | Some exc \<Rightarrow>
                     (let tr4 = tr3 @ [Log_warning ''Assign job error'', Sleep (1 / 2)];
                          r4 = assignJob (snd r3);
                          tr5 = tr4 @ [Call_assignJob]
                      in case fst r4 of
                           Some exc' \<Rightarrow> (Some exc', snd r4, tr5)
                         | None \<Rightarrow> (None, cache_expiry now (snd r4, tr5))))"
    unfolding out_def run_def s1 Let_def fst_conv snd_conv chk option.case tmB_def tr2_def
    by (simp split: option.splits)
  have first_ok: "fst (assignJob tmB) = None \<longrightarrow>
            fst out = None
          \<and> count_list (snd (snd out)) Call_assignJob = 1
          \<and> (\<exists>pre. snd out = cache_expiry now (tmC, pre))"
  proof
    assume a: "fst (assignJob tmB) = None"
    then have o: "out = (None, cache_expiry now (tmC, tr2 @ [Call_assignJob]))"
      by (simp add: unfold Let_def tmC_def)
    show "fst out = None
          \<and> count_list (snd (snd out)) Call_assignJob = 1
          \<and> (\<exists>pre. snd out = cache_expiry now (tmC, pre))"
      using c2 by (auto simp add: o cache_expiry_count)
  qed
  have first_raises: "fst (assignJob tmB) \<noteq> None \<longrightarrow>
            count_list (snd (snd out)) Call_assignJob = 2
          \<and> (\<exists>pre post. snd (snd out) =
                 pre @ [Call_assignJob, Log_warning ''Assign job error'', Sleep (1 / 2), Call_assignJob] @ post)
          \<and> (fst (assignJob tmC) = None \<longrightarrow>
                 fst out = None \<and> (\<exists>pre. snd out = cache_expiry now (snd (assignJob tmC), pre)))
          \<and> (\<forall>e. fst (assignJob tmC) = Some e \<longrightarrow>
                 fst out = Some e \<and> fst (snd out) = snd (assignJob tmC)
               \<and> Log_debug ''Cleared Result cache'' \<notin> set (snd (snd out)))"
  proof
    assume "fst (assignJob tmB) \<noteq> None"
    then obtain exc where a: "fst (assignJob tmB) = Some exc" by auto
    let ?tr5 = "tr2 @ [Call_assignJob, Log_warning ''Assign job error'', Sleep (1 / 2), Call_assignJob]"
    have c5: "count_list ?tr5 Call_assignJob = 2" using c2 by simp
    show "count_list (snd (snd out)) Call_assignJob = 2
          \<and> (\<exists>pre post. snd (snd out) =
                 pre @ [Call_assignJob, Log_warning ''Assign job error'', Sleep (1 / 2), Call_assignJob] @ post)
          \<and> (fst (assignJob tmC) = None \<longrightarrow>
                 fst out = None \<and> (\<exists>pre. snd out = cache_expiry now (snd (assignJob tmC), pre)))
          \<and> (\<forall>e. fst (assignJob tmC) = Some e \<longrightarrow>
                 fst out = Some e \<and> fst (snd out) = snd (assignJob tmC)
               \<and> Log_debug ''Cleared Result cache'' \<notin> set (snd (snd out)))"
    proof (cases "fst (assignJob tmC)")
      case None
      then have o: "out = (None, cache_expiry now (snd (assignJob tmC), ?tr5))"
        using a by (simp add: unfold Let_def tmC_def)
      obtain post where p: "snd (cache_expiry now (snd (assignJob tmC), ?tr5)) = ?tr5 @ post"
        using cache_expiry_suffix by blast
      have "count_list (snd (snd out)) Call_assignJob = 2"
        using c5 by (simp only: o snd_conv cache_expiry_count)
      moreover have "\<exists>pre post. snd (snd out) =
                 pre @ [Call_assignJob, Log_warning ''Assign job error'', Sleep (1 / 2), Call_assignJob] @ post"
        using p by (simp only: o snd_conv append_assoc) blast
      moreover have "fst out = None \<and> (\<exists>pre. snd out = cache_expiry now (snd (assignJob tmC), pre))"
        by (auto simp add: o)
      ultimately show ?thesis using None by simp
    next
      case (Some e)
      then have o: "out = (Some e, snd (assignJob tmC), ?tr5)"
        using a by (simp add: unfold Let_def tmC_def)
      have "count_list (snd (snd out)) Call_assignJob = 2"
        using c5 by (simp only: o snd_conv)
      moreover have "\<exists>pre post. snd (snd out) =
                 pre @ [Call_assignJob, Log_warning ''Assign job error'', Sleep (1 / 2), Call_assignJob] @ post"
        by (simp only: o snd_conv) (metis append_Nil2)
      moreover have "Log_debug ''Cleared Result cache'' \<notin> set (snd (snd out))"
        using nd by (simp add: o)
      ultimately show ?thesis using Some by (simp add: o)
    qed
  qed
  from first_ok first_raises show ?thesis by simp
qed

theorem run_retry_once_witness:
  "run (\<lambda>tm. (Some (OtherException ''r''), tm)) (\<lambda>tm. (None, tm))
       (\<lambda>tm. if pause tm then (Some (OtherException ''a''), tm\<lparr>pause := False\<rparr>) else (None, tm))
       (\<lambda>e. ''exc'') 1
     \<lparr>pause = True, reconnecting = True, infoCache = Map.empty, resultIDs = 1,
      infoResults = [0 \<mapsto> [''u'' \<mapsto> ''online'']], timestamp = 0, world = ()\<rparr>
   = (None,
      \<lparr>pause = False, reconnecting = False, infoCache = Map.empty, resultIDs = 1,
       infoResults = Map.empty, timestamp = 0, world = ()\<rparr>,
      [Call_tryReconnect, Log_error ''Reconnect Failed: exc'', Call_checkThreadCount, Call_assignJob,
       Log_warning ''Assign job error'', Sleep (1 / 2), Call_assignJob,
       Log_debug ''Cleared Result cache''])
   \<and> count_list (snd (snd (run (\<lambda>tm. (Some (OtherException ''r''), tm)) (\<lambda>tm. (None, tm))
       (\<lambda>tm. if pause tm then (Some (OtherException ''a''), tm\<lparr>pause := False\<rparr>) else (None, tm))
       (\<lambda>e. ''exc'') 1
     \<lparr>pause = True, reconnecting = True, infoCache = Map.empty, resultIDs = 1,
      infoResults = [0 \<mapsto> [''u'' \<mapsto> ''online'']], timestamp = 0, world = ()\<rparr>))) Call_assignJob = 2"
proof -
  let ?tr = "\<lambda>tm :: (string, unit) ThreadManager. (Some (OtherException ''r''), tm)"
  let ?ck = "\<lambda>tm :: (string, unit) ThreadManager. (None :: py_error option, tm)"
  let ?aj = "\<lambda>tm :: (string, unit) ThreadManager.
               if pause tm then (Some (OtherException ''a''), tm\<lparr>pause := False\<rparr>) else (None, tm)"
  let ?tm = "\<lparr>pause = True, reconnecting = True, infoCache = Map.empty, resultIDs = 1,
      infoResults = [0 \<mapsto> [''u'' \<mapsto> ''online'']], timestamp = 0, world = ()\<rparr>"
  have h: "fst (?ck (case fst (?tr ?tm) of None \<Rightarrow> snd (?tr ?tm)
                     | Some e \<Rightarrow> (snd (?tr ?tm))\<lparr>reconnecting := False\<rparr>)) = None"
    by simp
  have e: "run ?tr ?ck ?aj (\<lambda>e. ''exc'') 1 ?tm
   = (None,
      \<lparr>pause = False, reconnecting = False, infoCache = Map.empty, resultIDs = 1,
       infoResults = Map.empty, timestamp = 0, world = ()\<rparr>,
      [Call_tryReconnect, Log_error ''Reconnect Failed: exc'', Call_checkThreadCount, Call_assignJob,
       Log_warning ''Assign job error'', Sleep (1 / 2), Call_assignJob,
       Log_debug ''Cleared Result cache''])"
    by (simp add: run_def cache_expiry_def Let_def)
  have "count_list (snd (snd (run ?tr ?ck ?aj (\<lambda>e. ''exc'') 1 ?tm))) Call_assignJob = 2"
    using run_retry_once [of ?ck ?tr ?tm ?aj "\<lambda>e. ''exc''" 1, OF h] by simp
  with e show ?thesis by simp
qed

text \<open>
  With an \<open>assignJob\<close> that raises at both calls, the exception leaves \<open>run\<close> and the
  expired, non-empty cache is not flushed, as the expiry step would have done.
\<close>

theorem run_retry_fails_counterexample:
  "run (\<lambda>tm. (None, tm)) (\<lambda>tm. (None, tm)) (\<lambda>tm. (Some (OtherException ''a''), tm)) (\<lambda>e. ''exc'') 1
     \<lparr>pause = False, reconnecting = False, infoCache = Map.empty, resultIDs = 1,
      infoResults = [0 \<mapsto> [''u'' \<mapsto> ''online'']], timestamp = 0, world = ()\<rparr>
   = (Some (OtherException ''a''),
      \<lparr>pause = False, reconnecting = False, infoCache = Map.empty, resultIDs = 1,
       infoResults = [0 \<mapsto> [''u'' \<mapsto> ''online'']], timestamp = 0, world = ()\<rparr>,
      [Call_tryReconnect, Call_checkThreadCount, Call_assignJob,
       Log_warning ''Assign job error'', Sleep (1 / 2), Call_assignJob])
   \<and> cache_expiry 1
        (\<lparr>pause = False, reconnecting = False, infoCache = Map.empty, resultIDs = 1,
          infoResults = [0 \<mapsto> [''u'' \<mapsto> ''online'']], timestamp = 0, world = ()\<rparr>, [])
     = (\<lparr>pause = False, reconnecting = False, infoCache = Map.empty, resultIDs = 1,
          infoResults = Map.empty, timestamp = 0, world = ()\<rparr>,
        [Log_debug ''Cleared Result cache''])"
  by (simp add: run_def cache_expiry_def Let_def)

text \<open>
  \<open>createResultThread\<close> hands out the value of the counter and increments it; the counter
  starts at 0 in \<open>__init__\<close>, so no id it hands out is negative.
\<close>

lemma createResultThread_ids:
  "0 \<le> resultIDs tm \<Longrightarrow>
     0 \<le> fst (createResultThread now tm)
     \<and> resultIDs (snd (createResultThread now tm)) = resultIDs tm + 1"
  by (simp add: createResultThread_def Let_def)

text \<open>
  Claim C9. Result ids are the values of the counter \<open>resultIDs\<close>, which starts at 0, so
  \<open>-1\<close> is not one of them. For such an id, the \<open>OnlineCheck\<close> of \<open>pollResults\<close> never holds
  the key \<open>ALL_INFO_FETCHED\<close>; its id is \<open>-1\<close> exactly when the stored bucket held that key,
  and the polled id otherwise; its data are the bucket without the key; the stored
  bucket is left empty, so that a second retrieval returns nothing.
\<close>

theorem pollResults_sentinel:
  fixes tm :: "('v, 'w) ThreadManager" and r :: int and now now' :: real
  defines "bucket \<equiv> (case infoResults tm r of None \<Rightarrow> Map.empty | Some b \<Rightarrow> b)"
  defines "oc \<equiv> fst (pollResults now tm r)"
  defines "tm' \<equiv> snd (pollResults now tm r)"
  assumes "r \<noteq> - 1"
  shows "ALL_INFO_FETCHED \<notin> dom (data oc)
       \<and> (rid oc = - 1) = (ALL_INFO_FETCHED \<in> dom bucket)
       \<and> (ALL_INFO_FETCHED \<notin> dom bucket \<longrightarrow> rid oc = r)
       \<and> data oc = bucket(ALL_INFO_FETCHED := None)
       \<and> (infoResults tm r \<noteq> None \<longrightarrow> infoResults tm' r = Some Map.empty)
       \<and> fst (getInfoResult now' tm' r) = Map.empty"
  using assms(4) unfolding bucket_def oc_def tm'_def
  by (auto simp add: pollResults_def getInfoResult_def Let_def fun_upd_idem dom_def split: option.splits)

theorem pollResults_sentinel_witness:
  "pollResults 5
     \<lparr>pause = True, reconnecting = False, infoCache = Map.empty, resultIDs = 1,
      infoResults = [0 \<mapsto> [''u'' \<mapsto> ''online'', ALL_INFO_FETCHED \<mapsto> ''done'']],
      timestamp = 300, world = ()\<rparr> 0
   = (\<lparr>rid = - 1, data = [''u'' \<mapsto> ''online'', ALL_INFO_FETCHED \<mapsto> ''done''](ALL_INFO_FETCHED := None)\<rparr>,
      \<lparr>pause = True, reconnecting = False, infoCache = Map.empty, resultIDs = 1,
       infoResults = [0 \<mapsto> [''u'' \<mapsto> ''online'', ALL_INFO_FETCHED \<mapsto> ''done''], 0 \<mapsto> Map.empty],
       timestamp = 305, world = ()\<rparr>)
   \<and> ALL_INFO_FETCHED \<notin> dom (data (fst (pollResults 5
     \<lparr>pause = True, reconnecting = False, infoCache = Map.empty, resultIDs = 1,
      infoResults = [0 \<mapsto> [''u'' \<mapsto> ''online'', ALL_INFO_FETCHED \<mapsto> ''done'']],
      timestamp = 300, world = ()\<rparr> 0)))"
proof -
  let ?tm = "\<lparr>pause = True, reconnecting = False, infoCache = Map.empty, resultIDs = 1,
      infoResults = [0 \<mapsto> [''u'' \<mapsto> ''online'', ALL_INFO_FETCHED \<mapsto> ''done'']],
      timestamp = 300, world = ()\<rparr>"
  have h: "(0::int) \<noteq> - 1" by simp
  have a: "pollResults 5 ?tm 0
   = (\<lparr>rid = - 1, data = [''u'' \<mapsto> ''online'', ALL_INFO_FETCHED \<mapsto> ''done''](ALL_INFO_FETCHED := None)\<rparr>,
      \<lparr>pause = True, reconnecting = False, infoCache = Map.empty, resultIDs = 1,
       infoResults = [0 \<mapsto> [''u'' \<mapsto> ''online'', ALL_INFO_FETCHED \<mapsto> ''done''], 0 \<mapsto> Map.empty],
       timestamp = 305, world = ()\<rparr>)"
    by (simp add: pollResults_def getInfoResult_def purge_window_def Let_def)
  have b: "ALL_INFO_FETCHED \<notin> dom (data (fst (pollResults 5 ?tm 0)))"
    using pollResults_sentinel [OF h, of 5 ?tm] by blast
  from a b show ?thesis by simp
qed

text \<open>
  Claim C10. For an id with no bucket in \<open>infoResults\<close>, \<open>setInfoResults\<close> raises
  \<open>KeyError\<close>, while \<open>getInfoResult\<close> returns the empty map and only refreshes the
  timestamp, creating no bucket. An id whose bucket exists when the timestamp has run out
  has none after the expiry step of the tick, and then \<open>setInfoResults\<close> raises \<open>KeyError\<close>
  for it too.
\<close>

theorem setInfoResults_missing_bucket:
  "(infoResults tm r = None \<longrightarrow>
        setInfoResults tm r d = Inl KeyError
      \<and> getInfoResult now tm r = (Map.empty, tm\<lparr>timestamp := now + purge_window\<rparr>))
   \<and> (infoResults tm r \<noteq> None \<and> timestamp tm < now \<longrightarrow>
        setInfoResults (fst (cache_expiry now (tm, tr))) r d = Inl KeyError
      \<and> fst (getInfoResult now (fst (cache_expiry now (tm, tr))) r) = Map.empty)"
  by (auto simp add: setInfoResults_def getInfoResult_def cache_expiry_def Let_def)

theorem setInfoResults_missing_bucket_witness:
  "setInfoResults
     \<lparr>pause = True, reconnecting = False, infoCache = Map.empty, resultIDs = 1,
      infoResults = Map.empty, timestamp = 300, world = ()\<rparr> 0 [''u'' \<mapsto> ''online'']
   = Inl KeyError
   \<and> setInfoResults (fst (cache_expiry 301
       (\<lparr>pause = True, reconnecting = False, infoCache = Map.empty, resultIDs = 1,
         infoResults = [0 \<mapsto> Map.empty], timestamp = 300, world = ()\<rparr>, [])))
       0 [''u'' \<mapsto> ''online'']
   = Inl KeyError"
proof -
  let ?tm0 = "\<lparr>pause = True, reconnecting = False, infoCache = (Map.empty :: string \<rightharpoonup> string),
      resultIDs = 1, infoResults = Map.empty, timestamp = 300, world = ()\<rparr>"
  let ?tm1 = "\<lparr>pause = True, reconnecting = False, infoCache = (Map.empty :: string \<rightharpoonup> string),
      resultIDs = 1, infoResults = [0 \<mapsto> Map.empty], timestamp = 300, world = ()\<rparr>"
  have h0: "infoResults ?tm0 0 = None" by simp
  have h1: "infoResults ?tm1 0 \<noteq> None \<and> timestamp ?tm1 < 301" by simp
  have a: "setInfoResults ?tm0 0 [''u'' \<mapsto> ''online''] = Inl KeyError"
    using setInfoResults_missing_bucket [of ?tm0 0 "[''u'' \<mapsto> ''online'']" 301 "[]"] h0 by blast
  have b: "setInfoResults (fst (cache_expiry 301 (?tm1, []))) 0 [''u'' \<mapsto> ''online''] = Inl KeyError"
    using setInfoResults_missing_bucket [of ?tm1 0 "[''u'' \<mapsto> ''online'']" 301 "[]"] h1 by blast
  from a b show ?thesis by simp
qed

section \<open>Chunk sidecar: saving and loading\<close>





























end
